theory Spec2Isabelle
  imports Complex_Main "HOL-Library.Multiset" "HOL-Library.Sublist"
begin

section \<open>JavaScript values and records\<close>

text \<open>
  The values a parsed JSON document can hold, plus \<open>undefined\<close>, which is what reading an
  absent property yields. JSON numbers are finite, so they are reals here.
\<close>

datatype jsval =
    JUndefined
  | JNull
  | JBool bool
  | JNum real
  | JStr string
  | JArr "jsval list"
  | JObj "(string \<times> jsval) list"

text \<open>A RawRecord is an open-ended object: a map from property names to values.\<close>

type_synonym rawRecord = "string \<rightharpoonup> jsval"

text \<open>Property access \<open>car.Name\<close>: an absent property reads as \<open>undefined\<close>.\<close>

definition get_prop :: "rawRecord \<Rightarrow> string \<Rightarrow> jsval" where
  "get_prop car k = (case car k of None \<Rightarrow> JUndefined | Some v \<Rightarrow> v)"

text \<open>
  The object literal \<open>{ mpg: ..., horsepower: ... }\<close>. The script builds it with arbitrary
  JavaScript values in \<open>getData\<close> and reads it as a pair of numbers in \<open>convertToTensor\<close>
  (the spec's CleanRecord), hence the type parameter.
\<close>

record 'v car =
  mpg :: 'v
  horsepower :: 'v

text \<open>The loose comparison \<open>v != null\<close> is false exactly for \<open>null\<close> and \<open>undefined\<close>.\<close>

fun loose_ne_null :: "jsval \<Rightarrow> bool" where
  "loose_ne_null JNull = False"
| "loose_ne_null JUndefined = False"
| "loose_ne_null _ = True"

text \<open>
  What a rejected promise or a thrown exception carries. \<open>fetch\<close> rejects with a TypeError
  when the transfer fails, \<open>json()\<close> with a SyntaxError when the body is not JSON, and
  TensorFlow.js throws plain \<open>Error\<close>s with a message.
\<close>

datatype error = TypeError | SyntaxError | Error string

section \<open>getData\<close>

text \<open>The arrow function given to \<open>map\<close>: the projection of a RawRecord to the two fields.\<close>

definition project :: "rawRecord \<Rightarrow> jsval car" where
  "project car = \<lparr> mpg = get_prop car ''Miles_per_Gallon'',
                   horsepower = get_prop car ''Horsepower'' \<rparr>"

text \<open>The arrow function given to \<open>filter\<close>: the test for a record that is kept.\<close>

definition retained :: "jsval car \<Rightarrow> bool" where
  "retained car = (loose_ne_null (mpg car) \<and> loose_ne_null (horsepower car))"

text \<open>
  \<open>getData\<close> awaits \<open>fetch\<close> and \<open>json()\<close>; their joint outcome, the parsed array or the
  rejection, is the argument here. The rest is the \<open>map\<close> and the \<open>filter\<close> of the source.
\<close>

definition getData :: "error + rawRecord list \<Rightarrow> error + jsval car list" where
  "getData response =
     (case response of
        Inl e \<Rightarrow> Inl e
      | Inr carsData \<Rightarrow>
          let cleaned = filter retained (map project carsData)
          in Inr cleaned)"

section \<open>Numbers and tensors of TensorFlow.js\<close>

text \<open>
  A JavaScript number, as the script reads it from a record, is a real here. A tensor holds
  float32 elements: a tensor element is a float32 number, an infinity or NaN. The sign of
  zero is not modelled.
\<close>

datatype jsnum = Fin real | PInf | NInf | NaN

text \<open>
  Rounding to float32 (IEEE 754 binary32, round to nearest, ties to even). The finite
  float32 numbers are the multiples \<open>m * 2^e\<close> with \<open>|m| < 2^24\<close> and \<open>-149 \<le> e \<le> 104\<close>.
  \<open>rne\<close> rounds a real to the nearest integer, a tie to the even one. \<open>expo x\<close> is the
  exponent of the last place of \<open>x\<close>: the greatest \<open>e\<close> from -148 to 105 with
  \<open>2^(e + 23) \<le> |x|\<close>, and -149 when there is none (the subnormal range). \<open>round32\<close>
  rounds at that place, and a result of magnitude \<open>2^128\<close> or more overflows to an infinity.
\<close>

definition rne :: "real \<Rightarrow> int" where
  "rne q =
     (let f = \<lfloor>q\<rfloor>; d = q - of_int f
      in if d < 1 / 2 then f else if 1 / 2 < d then f + 1 else if even f then f else f + 1)"

fun expo_from :: "nat \<Rightarrow> real \<Rightarrow> int" where
  "expo_from 0 a = - 149"
| "expo_from (Suc n) a = (if 2 powi (int n - 125) \<le> a then int n - 148 else expo_from n a)"

definition expo :: "real \<Rightarrow> int" where
  "expo x = expo_from 254 \<bar>x\<bar>"

definition round32 :: "real \<Rightarrow> real" where
  "round32 x = of_int (rne (x / 2 powi expo x)) * 2 powi expo x"

definition float32 :: "real \<Rightarrow> jsnum" where
  "float32 x =
     (let y = round32 x
      in if 2 ^ 128 \<le> y then PInf else if y \<le> - (2 ^ 128) then NInf else Fin y)"

text \<open>
  Arithmetic on tensor elements: the exact result of two finite numbers is rounded to
  float32; the rest follows IEEE 754.
\<close>

fun jsnum_sub :: "jsnum \<Rightarrow> jsnum \<Rightarrow> jsnum" where
  "jsnum_sub (Fin a) (Fin b) = float32 (a - b)"
| "jsnum_sub NaN _ = NaN"
| "jsnum_sub _ NaN = NaN"
| "jsnum_sub PInf PInf = NaN"
| "jsnum_sub NInf NInf = NaN"
| "jsnum_sub PInf _ = PInf"
| "jsnum_sub NInf _ = NInf"
| "jsnum_sub _ PInf = NInf"
| "jsnum_sub _ NInf = PInf"

text \<open>Division: \<open>0/0\<close> and \<open>Infinity/Infinity\<close> are NaN, \<open>x/0\<close> is an infinity otherwise.\<close>

fun jsnum_div :: "jsnum \<Rightarrow> jsnum \<Rightarrow> jsnum" where
  "jsnum_div (Fin a) (Fin b) =
     (if b \<noteq> 0 then float32 (a / b)
      else if a = 0 then NaN
      else if 0 < a then PInf else NInf)"
| "jsnum_div NaN _ = NaN"
| "jsnum_div _ NaN = NaN"
| "jsnum_div (Fin a) _ = Fin 0"
| "jsnum_div PInf (Fin b) = (if 0 \<le> b then PInf else NInf)"
| "jsnum_div NInf (Fin b) = (if 0 \<le> b then NInf else PInf)"
| "jsnum_div _ _ = NaN"

text \<open>The comparison \<open>a > b\<close>; every comparison with NaN is false.\<close>

fun jsnum_gt :: "jsnum \<Rightarrow> jsnum \<Rightarrow> bool" where
  "jsnum_gt (Fin a) (Fin b) = (b < a)"
| "jsnum_gt NaN _ = False"
| "jsnum_gt _ NaN = False"
| "jsnum_gt PInf b = (b \<noteq> PInf)"
| "jsnum_gt a NInf = (a \<noteq> NInf)"
| "jsnum_gt _ _ = False"

text \<open>A tensor: its shape and its elements in row-major order.\<close>

record tensor =
  shape :: "nat list"
  vals :: "jsnum list"

text \<open>
  Modelled from the spec: \<open>tf.tensor2d\<close> belongs to TensorFlow.js, which is not part of
  this repository. Section 1 of the spec describes the conversion as "two numeric arrays
  to 2-D tensors"; the call fails when the shape given does not have two dimensions or does
  not hold as many elements as the array. The tensor is a float32 tensor: each number of
  the array is rounded to float32.
\<close>

definition tensor2d :: "real list \<Rightarrow> nat list \<Rightarrow> error + tensor" where
  "tensor2d xs shp =
     (if length shp \<noteq> 2 then Inl (Error ''tensor2d() requires shape to have two numbers'')
      else if prod_list shp \<noteq> length xs then Inl (Error ''shape does not match the values'')
      else Inr \<lparr> shape = shp, vals = map float32 xs \<rparr>)"

text \<open>
  Modelled from the spec: \<open>max()\<close> and \<open>min()\<close> of a tensor belong to TensorFlow.js. Section
  4.2 of the spec has them as the maximum and the minimum of the whole array, undefined on
  the empty one. The model is the linear scan of the library's reference kernel: it starts
  from element 0, which on an empty tensor is read as NaN, and a NaN among the elements
  wins. The result is a scalar, a tensor of shape \<open>[]\<close>.
\<close>

definition reduce_max :: "jsnum list \<Rightarrow> jsnum" where
  "reduce_max xs =
     fold (\<lambda>v m. if v = NaN \<or> jsnum_gt v m then v else m) xs
       (case xs of [] \<Rightarrow> NaN | x # _ \<Rightarrow> x)"

definition reduce_min :: "jsnum list \<Rightarrow> jsnum" where
  "reduce_min xs =
     fold (\<lambda>v m. if v = NaN \<or> jsnum_gt m v then v else m) xs
       (case xs of [] \<Rightarrow> NaN | x # _ \<Rightarrow> x)"

definition scalar :: "jsnum \<Rightarrow> tensor" where
  "scalar v = \<lparr> shape = [], vals = [v] \<rparr>"

definition tensor_max :: "tensor \<Rightarrow> tensor" where
  "tensor_max t = scalar (reduce_max (vals t))"

definition tensor_min :: "tensor \<Rightarrow> tensor" where
  "tensor_min t = scalar (reduce_min (vals t))"

text \<open>
  Modelled from the spec: \<open>sub\<close> and \<open>div\<close> of tensors belong to TensorFlow.js; section 4.2
  gives them elementwise as \<open>(value - min) / (max - min)\<close>. A scalar operand is combined
  with every element of the other one, which is the only broadcast the script uses; two
  tensors of one shape are combined elementwise; any other pair of shapes is an error here.
\<close>

definition broadcast :: "(jsnum \<Rightarrow> jsnum \<Rightarrow> jsnum) \<Rightarrow> tensor \<Rightarrow> tensor \<Rightarrow> error + tensor" where
  "broadcast f a b =
     (if shape b = [] \<and> length (vals b) = 1
        then Inr \<lparr> shape = shape a, vals = map (\<lambda>x. f x (hd (vals b))) (vals a) \<rparr>
      else if shape a = [] \<and> length (vals a) = 1
        then Inr \<lparr> shape = shape b, vals = map (\<lambda>y. f (hd (vals a)) y) (vals b) \<rparr>
      else if shape a = shape b \<and> length (vals a) = length (vals b)
        then Inr \<lparr> shape = shape a, vals = map (\<lambda>(x, y). f x y) (zip (vals a) (vals b)) \<rparr>
      else Inl (Error ''Operands could not be broadcast together''))"

definition tensor_sub :: "tensor \<Rightarrow> tensor \<Rightarrow> error + tensor" where
  "tensor_sub a b = broadcast jsnum_sub a b"

definition tensor_div :: "tensor \<Rightarrow> tensor \<Rightarrow> error + tensor" where
  "tensor_div a b = broadcast jsnum_div a b"

text \<open>Sequencing of calls that may throw: the first exception ends the computation.\<close>

definition and_then :: "error + 'a \<Rightarrow> ('a \<Rightarrow> error + 'b) \<Rightarrow> error + 'b" where
  "and_then r f = (case r of Inl e \<Rightarrow> Inl e | Inr x \<Rightarrow> f x)"

section \<open>Shuffling\<close>

text \<open>
  Modelled from the spec: \<open>tf.util.shuffle\<close> belongs to TensorFlow.js, which is not part of
  this repository. Section 4.2 of the spec names it a Fisher-Yates shuffle of the array, in
  place. A counter runs from the length of the array down to 1; each step picks a random
  index below the counter, decrements the counter and swaps the element at the counter with
  the one at the index. The random picks are the argument \<open>rnd\<close>: the k-th pick is
  \<open>rnd k\<close>, reduced modulo the counter so that it is an index below it.
\<close>

definition swap :: "'a list \<Rightarrow> nat \<Rightarrow> nat \<Rightarrow> 'a list" where
  "swap array left right =
     (let temp = array ! left in (array[left := array ! right])[right := temp])"

fun shuffle_loop :: "(nat \<Rightarrow> nat) \<Rightarrow> nat \<Rightarrow> nat \<Rightarrow> 'a list \<Rightarrow> 'a list" where
  "shuffle_loop rnd k 0 array = array"
| "shuffle_loop rnd k (Suc counter) array =
     (let index = rnd k mod Suc counter
      in shuffle_loop rnd (Suc k) counter (swap array counter index))"

definition shuffle :: "(nat \<Rightarrow> nat) \<Rightarrow> 'a list \<Rightarrow> 'a list" where
  "shuffle rnd array = shuffle_loop rnd 0 (length array) array"

section \<open>convertToTensor\<close>

record tensorData =
  inputs :: tensor
  labels :: tensor
  inputMax :: tensor
  inputMin :: tensor
  labelMax :: tensor
  labelMin :: tensor

text \<open>
  \<open>convertToTensor\<close> shuffles the caller's array in place, so the model returns the array as
  it is after the call next to the returned object. \<open>tf.tidy\<close> only releases the
  intermediate tensors and hands the callback's result on.
\<close>

definition convertToTensor :: "(nat \<Rightarrow> nat) \<Rightarrow> real car list \<Rightarrow> error + (real car list \<times> tensorData)" where
  "convertToTensor rnd data0 =
     (let data = shuffle rnd data0;
          inputs = map horsepower data;
          labels = map mpg data
      in and_then (tensor2d inputs [length inputs, 1]) (\<lambda>inputTensor.
         and_then (tensor2d labels [length labels, 1]) (\<lambda>labelTensor.
         let inputMax = tensor_max inputTensor;
             inputMin = tensor_min inputTensor;
             labelMax = tensor_max labelTensor;
             labelMin = tensor_min labelTensor
         in and_then (tensor_sub inputTensor inputMin) (\<lambda>inputShifted.
            and_then (tensor_sub inputMax inputMin) (\<lambda>inputRange.
            and_then (tensor_div inputShifted inputRange) (\<lambda>normalizedInputs.
            and_then (tensor_sub labelTensor labelMin) (\<lambda>labelShifted.
            and_then (tensor_sub labelMax labelMin) (\<lambda>labelRange.
            and_then (tensor_div labelShifted labelRange) (\<lambda>normalizedLabels.
            Inr (data,
                 \<lparr> inputs = normalizedInputs,
                   labels = normalizedLabels,
                   inputMax = inputMax,
                   inputMin = inputMin,
                   labelMax = labelMax,
                   labelMin = labelMin \<rparr>))))))))))"

section \<open>createModel\<close>

text \<open>
  The argument of \<open>tf.layers.dense\<close> is an object literal in which every property but
  \<open>units\<close> may be left out.
\<close>

record denseLayerArgs =
  inputShape :: "nat list option"
  units :: nat
  useBias :: "bool option"
  activation :: "string option"

text \<open>
  Modelled from the spec: \<open>tf.layers.dense\<close>, \<open>tf.sequential\<close> and \<open>model.add\<close> belong to
  TensorFlow.js, which is not part of this repository. Section 3 of the spec has the model
  as an ordered list of affine layers, and the glossary an affine layer as \<open>y = Wx + b\<close>.
  A dense layer keeps its number of units and its input shape, has a bias unless \<open>useBias\<close>
  is false, and applies no activation (the identity, named linear) unless one is given. A
  sequential model starts empty, \<open>add\<close> appends a layer, and the first layer must say its
  input shape.
\<close>

record denseLayer =
  layerInputShape :: "nat list option"
  layerUnits :: nat
  layerUseBias :: bool
  layerActivation :: string

definition dense :: "denseLayerArgs \<Rightarrow> denseLayer" where
  "dense args =
     \<lparr> layerInputShape = inputShape args,
       layerUnits = units args,
       layerUseBias = (case useBias args of None \<Rightarrow> True | Some b \<Rightarrow> b),
       layerActivation = (case activation args of None \<Rightarrow> ''linear'' | Some a \<Rightarrow> a) \<rparr>"

record sequentialModel =
  layers :: "denseLayer list"

definition sequential :: sequentialModel where
  "sequential = \<lparr> layers = [] \<rparr>"

definition add :: "sequentialModel \<Rightarrow> denseLayer \<Rightarrow> error + sequentialModel" where
  "add model layer =
     (if layers model = [] \<and> layerInputShape layer = None
        then Inl (Error ''The first layer in a Sequential model must get an inputShape'')
      else Inr (model \<lparr> layers := layers model @ [layer] \<rparr>))"

definition createModel :: "error + sequentialModel" where
  "createModel =
     (let model = sequential
      in and_then (add model (dense \<lparr> inputShape = Some [1], units = 1,
                                      useBias = Some True, activation = None \<rparr>)) (\<lambda>model.
         and_then (add model (dense \<lparr> inputShape = None, units = 1,
                                      useBias = Some True, activation = None \<rparr>)) (\<lambda>model.
         Inr model)))"

section \<open>trainModel\<close>
























section \<open>Properties of getData\<close>

lemma loose_ne_null_iff: "loose_ne_null v \<longleftrightarrow> v \<noteq> JNull \<and> v \<noteq> JUndefined"
  by (cases v) simp_all

lemma retained_iff:
  "retained c \<longleftrightarrow>
   mpg c \<noteq> JNull \<and> mpg c \<noteq> JUndefined \<and> horsepower c \<noteq> JNull \<and> horsepower c \<noteq> JUndefined"
  by (auto simp: retained_def loose_ne_null_iff)

lemma getData_Inr: "getData (Inr carsData) = Inr (filter retained (map project carsData))"
  by (simp add: getData_def)

lemma get_prop_undefined:
  "get_prop r k = JUndefined \<longleftrightarrow> r k = None \<or> r k = Some JUndefined"
  by (auto simp: get_prop_def split: option.splits)

lemma get_prop_null: "get_prop r k = JNull \<longleftrightarrow> r k = Some JNull"
  by (auto simp: get_prop_def split: option.splits)

text \<open>
  Claim C4. For every list of RawRecords, \<open>getData\<close> returns the projections to
  \<open>{mpg, horsepower}\<close> of the records whose two fields are non-null, in the order of the
  input. Non-null is the source's test \<open>!= null\<close>, which a field that reads as \<open>undefined\<close>
  fails as well (first conjunct); on records that have both fields, it is the plain
  comparison with \<open>null\<close> (third conjunct). The output is a subsequence of the projected
  input in which no record with a null field occurs (second conjunct). The empty input, and
  an input of which no record passes the test, give the empty sequence and not an error
  (fourth and fifth conjunct).
\<close>

theorem getData_projects_and_filters:
  "getData (Inr carsData) =
     Inr (filter (\<lambda>c. mpg c \<noteq> JNull \<and> mpg c \<noteq> JUndefined \<and>
                       horsepower c \<noteq> JNull \<and> horsepower c \<noteq> JUndefined)
            (map project carsData))
   \<and> (\<exists>out. getData (Inr carsData) = Inr out
          \<and> subseq out (map project carsData)
          \<and> (\<forall>r\<in>set carsData.
                get_prop r ''Miles_per_Gallon'' = JNull \<or> get_prop r ''Horsepower'' = JNull
                \<longrightarrow> project r \<notin> set out))
   \<and> ((\<forall>r\<in>set carsData.
          get_prop r ''Miles_per_Gallon'' \<noteq> JUndefined \<and> get_prop r ''Horsepower'' \<noteq> JUndefined)
        \<longrightarrow> getData (Inr carsData) =
              Inr (filter (\<lambda>c. mpg c \<noteq> JNull \<and> horsepower c \<noteq> JNull) (map project carsData)))
   \<and> getData (Inr []) = Inr []
   \<and> ((\<forall>r\<in>set carsData. \<not> retained (project r)) \<longrightarrow> getData (Inr carsData) = Inr [])"
proof (intro conjI)
  have eq: "retained = (\<lambda>c. mpg c \<noteq> JNull \<and> mpg c \<noteq> JUndefined \<and>
                       horsepower c \<noteq> JNull \<and> horsepower c \<noteq> JUndefined)"
    by (rule ext) (rule retained_iff)
  show "getData (Inr carsData) =
     Inr (filter (\<lambda>c. mpg c \<noteq> JNull \<and> mpg c \<noteq> JUndefined \<and>
                       horsepower c \<noteq> JNull \<and> horsepower c \<noteq> JUndefined)
            (map project carsData))"
    unfolding getData_Inr eq ..
  show "\<exists>out. getData (Inr carsData) = Inr out
          \<and> subseq out (map project carsData)
          \<and> (\<forall>r\<in>set carsData.
                get_prop r ''Miles_per_Gallon'' = JNull \<or> get_prop r ''Horsepower'' = JNull
                \<longrightarrow> project r \<notin> set out)"
    by (auto simp: getData_Inr retained_iff project_def)
  show "(\<forall>r\<in>set carsData.
          get_prop r ''Miles_per_Gallon'' \<noteq> JUndefined \<and> get_prop r ''Horsepower'' \<noteq> JUndefined)
        \<longrightarrow> getData (Inr carsData) =
              Inr (filter (\<lambda>c. mpg c \<noteq> JNull \<and> horsepower c \<noteq> JNull) (map project carsData))"
    by (auto simp: getData_Inr retained_iff project_def intro!: filter_cong)
  show "getData (Inr []) = Inr []"
    by (simp add: getData_Inr)
  show "(\<forall>r\<in>set carsData. \<not> retained (project r)) \<longrightarrow> getData (Inr carsData) = Inr []"
    by (auto simp: getData_Inr filter_empty_conv)
qed

theorem getData_projects_and_filters_witness:
  "list_all (\<lambda>r. get_prop r ''Miles_per_Gallon'' \<noteq> JUndefined \<and> get_prop r ''Horsepower'' \<noteq> JUndefined)
     [[''Miles_per_Gallon'' \<mapsto> JNum 18, ''Horsepower'' \<mapsto> JNum 130, ''Name'' \<mapsto> JStr ''a''],
      [''Miles_per_Gallon'' \<mapsto> JNull, ''Horsepower'' \<mapsto> JNum 165],
      [''Miles_per_Gallon'' \<mapsto> JNum 24, ''Horsepower'' \<mapsto> JNum 80],
      [''Miles_per_Gallon'' \<mapsto> JNum 15, ''Horsepower'' \<mapsto> JNull]]
   \<and> getData (Inr [[''Miles_per_Gallon'' \<mapsto> JNum 18, ''Horsepower'' \<mapsto> JNum 130, ''Name'' \<mapsto> JStr ''a''],
                   [''Miles_per_Gallon'' \<mapsto> JNull, ''Horsepower'' \<mapsto> JNum 165],
                   [''Miles_per_Gallon'' \<mapsto> JNum 24, ''Horsepower'' \<mapsto> JNum 80],
                   [''Miles_per_Gallon'' \<mapsto> JNum 15, ''Horsepower'' \<mapsto> JNull]])
       = Inr [\<lparr> mpg = JNum 18, horsepower = JNum 130 \<rparr>, \<lparr> mpg = JNum 24, horsepower = JNum 80 \<rparr>]
   \<and> list_all (\<lambda>r. \<not> retained (project r)) [[''Miles_per_Gallon'' \<mapsto> JNull, ''Horsepower'' \<mapsto> JNum 165]]
   \<and> getData (Inr [[''Miles_per_Gallon'' \<mapsto> JNull, ''Horsepower'' \<mapsto> JNum 165]]) = Inr []"
  using getData_projects_and_filters
          [of "[[''Miles_per_Gallon'' \<mapsto> JNum 18, ''Horsepower'' \<mapsto> JNum 130, ''Name'' \<mapsto> JStr ''a''],
                [''Miles_per_Gallon'' \<mapsto> JNull, ''Horsepower'' \<mapsto> JNum 165],
                [''Miles_per_Gallon'' \<mapsto> JNum 24, ''Horsepower'' \<mapsto> JNum 80],
                [''Miles_per_Gallon'' \<mapsto> JNum 15, ''Horsepower'' \<mapsto> JNull]]"]
        getData_projects_and_filters [of "[[''Miles_per_Gallon'' \<mapsto> JNull, ''Horsepower'' \<mapsto> JNum 165]]"]
  by (simp add: get_prop_def project_def retained_def)

text \<open>
  Claim C10. The test \<open>car.mpg != null && car.horsepower != null\<close> is a loose comparison:
  it rejects \<open>undefined\<close> as it rejects \<open>null\<close>. So every record of the output has both
  fields defined and non-null, and a RawRecord in which \<open>Miles_per_Gallon\<close> or \<open>Horsepower\<close>
  is absent, undefined or null has no projection in the output; what is kept is one record
  for each RawRecord that holds a value other than \<open>null\<close> and \<open>undefined\<close> in both fields.
\<close>

theorem getData_drops_undefined:
  "\<exists>out. getData (Inr carsData) = Inr out
     \<and> (\<forall>c\<in>set out. mpg c \<noteq> JNull \<and> mpg c \<noteq> JUndefined \<and>
                      horsepower c \<noteq> JNull \<and> horsepower c \<noteq> JUndefined)
     \<and> (\<forall>r\<in>set carsData.
           r ''Miles_per_Gallon'' \<in> {None, Some JUndefined, Some JNull} \<or>
           r ''Horsepower'' \<in> {None, Some JUndefined, Some JNull}
           \<longrightarrow> project r \<notin> set out)
     \<and> out = map project
               (filter (\<lambda>r. r ''Miles_per_Gallon'' \<notin> {None, Some JUndefined, Some JNull} \<and>
                            r ''Horsepower'' \<notin> {None, Some JUndefined, Some JNull}) carsData)"
proof -
  have keep: "retained (project r) \<longleftrightarrow>
                r ''Miles_per_Gallon'' \<notin> {None, Some JUndefined, Some JNull} \<and>
                r ''Horsepower'' \<notin> {None, Some JUndefined, Some JNull}" for r
    by (auto simp: retained_iff project_def get_prop_undefined get_prop_null)
  have "filter retained (map project carsData) =
        map project (filter (\<lambda>r. r ''Miles_per_Gallon'' \<notin> {None, Some JUndefined, Some JNull} \<and>
                                  r ''Horsepower'' \<notin> {None, Some JUndefined, Some JNull}) carsData)"
    by (simp add: filter_map comp_def keep)
  moreover have "\<forall>c\<in>set (filter retained (map project carsData)).
                    mpg c \<noteq> JNull \<and> mpg c \<noteq> JUndefined \<and>
                    horsepower c \<noteq> JNull \<and> horsepower c \<noteq> JUndefined"
    by (auto simp: retained_iff)
  moreover have "\<forall>r\<in>set carsData.
           r ''Miles_per_Gallon'' \<in> {None, Some JUndefined, Some JNull} \<or>
           r ''Horsepower'' \<in> {None, Some JUndefined, Some JNull}
           \<longrightarrow> project r \<notin> set (filter retained (map project carsData))"
    using keep by auto
  ultimately show ?thesis
    by (simp add: getData_Inr)
qed

theorem getData_drops_undefined_witness:
  "\<exists>out. getData (Inr [[''Miles_per_Gallon'' \<mapsto> JNum 18, ''Horsepower'' \<mapsto> JNum 130],
                       [''Horsepower'' \<mapsto> JNum 80],
                       [''Miles_per_Gallon'' \<mapsto> JNum 21, ''Horsepower'' \<mapsto> JUndefined],
                       [''Miles_per_Gallon'' \<mapsto> JNull, ''Horsepower'' \<mapsto> JNum 95]]) = Inr out
     \<and> out = [\<lparr> mpg = JNum 18, horsepower = JNum 130 \<rparr>]
     \<and> (\<forall>c\<in>set out. mpg c \<noteq> JNull \<and> mpg c \<noteq> JUndefined \<and>
                      horsepower c \<noteq> JNull \<and> horsepower c \<noteq> JUndefined)
     \<and> project [''Horsepower'' \<mapsto> JNum 80] \<notin> set out"
  using getData_drops_undefined
          [of "[[''Miles_per_Gallon'' \<mapsto> JNum 18, ''Horsepower'' \<mapsto> JNum 130],
                [''Horsepower'' \<mapsto> JNum 80],
                [''Miles_per_Gallon'' \<mapsto> JNum 21, ''Horsepower'' \<mapsto> JUndefined],
                [''Miles_per_Gallon'' \<mapsto> JNull, ''Horsepower'' \<mapsto> JNum 95]]"]
  by (simp add: project_def get_prop_def)

section \<open>Properties of float32 rounding\<close>

lemma rne_bounds: "\<lfloor>q\<rfloor> \<le> rne q" "rne q \<le> \<lfloor>q\<rfloor> + 1"
  by (simp_all add: rne_def Let_def)

lemma rne_of_int: "rne (of_int n) = n"
  by (simp add: rne_def)

lemma rne_mono:
  assumes "q \<le> r"
  shows "rne q \<le> rne r"
proof (cases "\<lfloor>q\<rfloor> = \<lfloor>r\<rfloor>")
  case True
  then show ?thesis
    using assms by (auto simp: rne_def Let_def)
next
  case False
  then have "\<lfloor>q\<rfloor> < \<lfloor>r\<rfloor>"
    using assms floor_mono [of q r] by linarith
  then have "\<lfloor>q\<rfloor> + 1 \<le> \<lfloor>r\<rfloor>"
    by simp
  then show ?thesis
    using rne_bounds(2) [of q] rne_bounds(1) [of r] by linarith
qed

lemma rne_ge: "of_int n \<le> q \<Longrightarrow> n \<le> rne q"
  using rne_mono [of "of_int n" q] by (simp add: rne_of_int)

lemma rne_le: "q \<le> of_int n \<Longrightarrow> rne q \<le> n"
  using rne_mono [of q "of_int n"] by (simp add: rne_of_int)

lemma rne_minus: "rne (- q) = - rne q"
proof (cases "q \<in> \<int>")
  case True
  then obtain n where "q = of_int n"
    by (auto elim: Ints_cases)
  then show ?thesis
    using rne_of_int [of "- n"] by (simp add: rne_of_int)
next
  case False
  have ne: "q \<noteq> of_int \<lfloor>q\<rfloor>"
    using False by (metis Ints_of_int)
  then have fl: "\<lfloor>- q\<rfloor> = - \<lfloor>q\<rfloor> - 1"
    by (simp add: floor_minus ceiling_altdef)
  have odd_even: "even (- \<lfloor>q\<rfloor> - 1) \<longleftrightarrow> odd \<lfloor>q\<rfloor>"
    by simp
  show ?thesis
    unfolding rne_def Let_def fl odd_even
    using ne by (auto simp: field_simps)
qed

lemma expo_from_bounds: "- 149 \<le> expo_from n a" "expo_from n a \<le> int n - 149"
  by (induction n) auto

lemma expo_from_lower: "- 149 < expo_from n a \<Longrightarrow> 2 powi (expo_from n a + 23) \<le> a"
  by (induction n) (auto simp: algebra_simps)

lemma expo_from_upper: "expo_from n a < int n - 149 \<Longrightarrow> a < 2 powi (expo_from n a + 24)"
proof (induction n)
  case 0
  then show ?case by simp
next
  case (Suc n)
  show ?case
  proof (cases "2 powi (int n - 125) \<le> a")
    case True
    then show ?thesis using Suc.prems by simp
  next
    case False
    then have small: "a < 2 powi (int n - 125)" by simp
    show ?thesis
    proof (cases "expo_from n a < int n - 149")
      case True
      then show ?thesis using Suc.IH False by simp
    next
      case False
      then have "expo_from n a = int n - 149"
        using expo_from_bounds(2) [of n a] by simp
      then have "expo_from n a + 24 = int n - 125"
        by simp
      moreover have "expo_from (Suc n) a = expo_from n a"
        using small by simp
      ultimately show ?thesis
        using small by (simp only:)
    qed
  qed
qed

lemma expo_from_mono: "a \<le> b \<Longrightarrow> expo_from n a \<le> expo_from n b"
proof (induction n)
  case 0
  then show ?case by simp
next
  case (Suc n)
  then show ?case
    using expo_from_bounds(2) [of n a] by auto
qed

lemma expo_bounds: "- 149 \<le> expo x" "expo x \<le> 105"
  using expo_from_bounds [of 254 "\<bar>x\<bar>"] by (simp_all add: expo_def)

lemma expo_lower: "- 149 < expo x \<Longrightarrow> 2 powi (expo x + 23) \<le> \<bar>x\<bar>"
  unfolding expo_def by (rule expo_from_lower)

lemma expo_upper: "expo x < 105 \<Longrightarrow> \<bar>x\<bar> < 2 powi (expo x + 24)"
  unfolding expo_def using expo_from_upper [of 254 "\<bar>x\<bar>"] by simp

lemma expo_mono: "\<bar>x\<bar> \<le> \<bar>y\<bar> \<Longrightarrow> expo x \<le> expo y"
  unfolding expo_def by (rule expo_from_mono)

lemma expo_minus: "expo (- x) = expo x"
  by (simp add: expo_def)

lemma two_powi_pos: "0 < (2::real) powi k"
  by (simp add: zero_less_power_int)

lemma two_powi_add: "(2::real) powi (k + l) = 2 powi k * 2 powi l"
  by (simp add: power_int_add)

lemma two_powi_mono: "k \<le> l \<Longrightarrow> (2::real) powi k \<le> 2 powi l"
  by (simp add: power_int_increasing)

lemma two_powi_less_cancel: "(2::real) powi k < 2 powi l \<Longrightarrow> k < l"
  using two_powi_mono [of l k] by (cases "k < l") auto

text \<open>The exponent of a number in a known binade.\<close>

lemma expo_eq:
  assumes "2 powi k \<le> \<bar>x\<bar>" "\<bar>x\<bar> < 2 powi (k + 1)" "- 126 \<le> k" "k \<le> 128"
  shows "expo x = k - 23"
proof (rule antisym)
  show "expo x \<le> k - 23"
  proof (rule ccontr)
    assume "\<not> expo x \<le> k - 23"
    then have big: "k - 23 < expo x" by simp
    then have "- 149 < expo x" using assms(3) by simp
    from expo_lower [OF this] assms(2) have "2 powi (expo x + 23) < (2::real) powi (k + 1)"
      by simp
    then have "expo x + 23 < k + 1" by (rule two_powi_less_cancel)
    with big show False by simp
  qed
  show "k - 23 \<le> expo x"
  proof (rule ccontr)
    assume "\<not> k - 23 \<le> expo x"
    then have small: "expo x < k - 23" by simp
    then have "expo x < 105" using assms(4) by simp
    from expo_upper [OF this] assms(1) have "2 powi k < (2::real) powi (expo x + 24)"
      by simp
    then have "k < expo x + 24" by (rule two_powi_less_cancel)
    with small show False by simp
  qed
qed

lemma expo_subnormal:
  assumes "\<bar>x\<bar> < 2 powi (- 125)"
  shows "expo x = - 149"
proof (rule ccontr)
  assume "expo x \<noteq> - 149"
  then have "- 149 < expo x" using expo_bounds(1) [of x] by simp
  from expo_lower [OF this] assms have "2 powi (expo x + 23) < (2::real) powi (- 125)"
    by simp
  then have "expo x + 23 < - 125" by (rule two_powi_less_cancel)
  with \<open>- 149 < expo x\<close> show False by simp
qed

lemma round32_minus: "round32 (- x) = - round32 x"
  by (simp add: round32_def expo_minus rne_minus)

lemma round32_zero: "round32 0 = 0"
  by (simp add: round32_def rne_def)

lemma round32_nonneg:
  assumes "0 \<le> x"
  shows "0 \<le> round32 x"
proof -
  have "0 \<le> x / 2 powi expo x"
    using assms two_powi_pos [of "expo x"] by simp
  then have "0 \<le> rne (x / 2 powi expo x)"
    using rne_ge [of 0] by simp
  then show ?thesis
    using two_powi_pos [of "expo x"] by (simp add: round32_def)
qed

lemma round32_mono_nonneg:
  assumes "0 \<le> x" "x \<le> y"
  shows "round32 x \<le> round32 y"
proof (cases "expo x = expo y")
  case True
  have "x / 2 powi expo y \<le> y / 2 powi expo y"
    using assms(2) two_powi_pos [of "expo y"] by (simp add: divide_right_mono)
  then have "rne (x / 2 powi expo y) \<le> rne (y / 2 powi expo y)"
    by (rule rne_mono)
  then show ?thesis
    using two_powi_pos [of "expo y"] by (simp add: round32_def True)
next
  case False
  have "expo x \<le> expo y"
    using assms by (intro expo_mono) simp
  with False have lt: "expo x < expo y" by simp
  have xs: "x < 2 powi (expo x + 24)"
    using expo_upper [of x] lt expo_bounds(2) [of y] assms(1) by simp
  have "x / 2 powi expo x \<le> 2 powi 24"
    using xs two_powi_pos [of "expo x"] by (simp add: two_powi_add field_simps)
  then have "x / 2 powi expo x \<le> of_int (2 ^ 24)"
    by simp
  then have "rne (x / 2 powi expo x) \<le> 2 ^ 24"
    by (rule rne_le)
  then have "of_int (rne (x / 2 powi expo x)) \<le> (2::real) powi 24"
    by (simp add: of_int_le_iff [symmetric] del: of_int_le_iff)
  then have up: "round32 x \<le> 2 powi (expo x + 24)"
    using two_powi_pos [of "expo x"]
    by (simp add: round32_def two_powi_add mult.commute mult_left_mono)
  have ys: "2 powi (expo y + 23) \<le> y"
    using expo_lower [of y] lt expo_bounds(1) [of x] assms by simp
  have "2 powi 23 \<le> y / 2 powi expo y"
    using ys two_powi_pos [of "expo y"] by (simp add: two_powi_add field_simps)
  then have "of_int (2 ^ 23) \<le> y / 2 powi expo y"
    by simp
  then have "2 ^ 23 \<le> rne (y / 2 powi expo y)"
    by (rule rne_ge)
  then have "(2::real) powi 23 \<le> of_int (rne (y / 2 powi expo y))"
    by (simp add: of_int_le_iff [symmetric] del: of_int_le_iff)
  then have lo: "2 powi (expo y + 23) \<le> round32 y"
    using two_powi_pos [of "expo y"]
    by (simp add: round32_def two_powi_add mult.commute mult_left_mono)
  have "(2::real) powi (expo x + 24) \<le> 2 powi (expo y + 23)"
    using lt by (intro two_powi_mono) simp
  with up lo show ?thesis by linarith
qed

lemma round32_mono:
  assumes "x \<le> y"
  shows "round32 x \<le> round32 y"
proof (cases "0 \<le> x")
  case True
  then show ?thesis using assms by (rule round32_mono_nonneg)
next
  case neg: False
  show ?thesis
  proof (cases "0 \<le> y")
    case True
    have "round32 x = - round32 (- x)"
      using round32_minus [of "- x"] by simp
    moreover have "0 \<le> round32 (- x)"
      using neg by (intro round32_nonneg) simp
    moreover have "0 \<le> round32 y"
      using True by (rule round32_nonneg)
    ultimately show ?thesis by linarith
  next
    case False
    have "round32 (- y) \<le> round32 (- x)"
      using assms False by (intro round32_mono_nonneg) simp_all
    then show ?thesis
      by (simp add: round32_minus)
  qed
qed

text \<open>A number that is a multiple of the unit of its last place is not changed.\<close>

lemma round32_exact:
  assumes "x = of_int m * 2 powi expo x"
  shows "round32 x = x"
proof -
  have "x / 2 powi expo x = of_int m"
    using two_powi_pos [of "expo x"] by (subst assms) simp
  then show ?thesis
    using assms by (simp add: round32_def rne_of_int)
qed

lemma two_powi_int: "0 \<le> k \<Longrightarrow> (2::real) powi k = of_int (2 ^ nat k)"
  by (simp add: power_int_nonneg_exp)

lemma round32_of_int:
  assumes "\<bar>n\<bar> \<le> 2 ^ 24"
  shows "round32 (of_int n) = of_int n"
proof (cases "\<bar>n\<bar> = 2 ^ 24")
  case True
  have "expo (of_int n) = 24 - 23"
    by (rule expo_eq) (simp_all add: True flip: of_int_abs)
  then have e: "expo (of_int n) = 1" by simp
  have "n = 2 ^ 24 \<or> n = - (2 ^ 24)" using True by linarith
  then have "of_int n = (of_int (n div 2) :: real) * 2 powi expo (of_int n)"
    unfolding e by auto
  then show ?thesis by (rule round32_exact)
next
  case False
  with assms have lt: "\<bar>n\<bar> < 2 ^ 24" by simp
  have le0: "expo (of_int n) \<le> 0"
  proof (rule ccontr)
    assume "\<not> expo (of_int n) \<le> 0"
    then have pos: "0 < expo (of_int n)" by simp
    then have "2 powi (expo (of_int n) + 23) \<le> \<bar>of_int n :: real\<bar>"
      by (intro expo_lower) simp
    moreover have "\<bar>of_int n :: real\<bar> < 2 powi 24"
      using lt by (simp flip: of_int_abs add: of_int_less_iff [symmetric] del: of_int_less_iff)
    ultimately have "(2::real) powi (expo (of_int n) + 23) < 2 powi 24" by linarith
    then have "expo (of_int n) + 23 < 24" by (rule two_powi_less_cancel)
    with pos show False by simp
  qed
  let ?e = "expo (of_int n :: real)"
  have "(2::real) powi (- ?e) * 2 powi ?e = 1"
    using two_powi_add [of "- ?e" ?e] by simp
  moreover have "(2::real) powi (- ?e) = of_int (2 ^ nat (- ?e))"
    using le0 by (intro two_powi_int) simp
  ultimately have "of_int n = (of_int (n * 2 ^ nat (- ?e)) :: real) * 2 powi ?e"
    by (simp add: mult.assoc)
  then show ?thesis by (rule round32_exact)
qed

lemma round32_numeral:
  "numeral w \<le> (16777216::int) \<Longrightarrow> round32 (numeral w) = numeral w"
  using round32_of_int [of "numeral w"] by simp

lemma round32_one: "round32 1 = 1"
  using round32_of_int [of 1] by simp

text \<open>Every rounded number is a multiple of the least positive float32 number.\<close>

lemma round32_multiple: "\<exists>k::int. round32 x = of_int k * 2 powi (- 149)"
proof -
  let ?e = "expo x"
  have "0 \<le> ?e + 149" using expo_bounds(1) [of x] by simp
  then have "(2::real) powi (?e + 149) = of_int (2 ^ nat (?e + 149))"
    by (rule two_powi_int)
  moreover have "(2::real) powi ?e = 2 powi (?e + 149) * 2 powi (- 149)"
    using two_powi_add [of "?e + 149" "- 149"] by simp
  ultimately have "round32 x = of_int (rne (x / 2 powi ?e) * 2 ^ nat (?e + 149)) * 2 powi (- 149)"
    by (simp add: round32_def mult.assoc)
  then show ?thesis by blast
qed

lemma round32_least: "round32 (2 powi (- 149)) = 2 powi (- 149)"
proof -
  have "\<bar>(2::real) powi (- 149)\<bar> < 2 powi (- 125)"
    using power_int_strict_increasing [of "- 149" "- 125" "2::real"] two_powi_pos [of "- 149"]
    by simp
  then have "expo (2 powi (- 149)) = - 149"
    by (rule expo_subnormal)
  then have "(2::real) powi (- 149) = of_int 1 * 2 powi expo (2 powi (- 149))"
    by simp
  then show ?thesis by (rule round32_exact)
qed

text \<open>Two distinct rounded numbers lie apart, and their difference does not round to zero.\<close>

lemma round32_difference_pos:
  assumes "round32 x < round32 y"
  shows "0 < round32 (round32 y - round32 x)"
proof -
  obtain k l :: int where k: "round32 x = of_int k * 2 powi (- 149)"
    and l: "round32 y = of_int l * 2 powi (- 149)"
    using round32_multiple by blast
  have "of_int k * (2::real) powi (- 149) < of_int l * 2 powi (- 149)"
    using assms k l by simp
  then have "k < l"
    using two_powi_pos [of "- 149"] by (simp add: mult_less_cancel_right)
  then have "(1::real) \<le> of_int (l - k)"
    by (simp add: of_int_le_iff [symmetric] del: of_int_le_iff of_int_diff)
  then have "1 * 2 powi (- 149) \<le> (of_int (l - k) :: real) * 2 powi (- 149)"
    using two_powi_pos [of "- 149"] by (intro mult_right_mono) simp_all
  then have "2 powi (- 149) \<le> round32 y - round32 x"
    by (simp add: k l algebra_simps)
  then have "round32 (2 powi (- 149)) \<le> round32 (round32 y - round32 x)"
    by (rule round32_mono)
  then have "2 powi (- 149) \<le> round32 (round32 y - round32 x)"
    unfolding round32_least .
  with two_powi_pos [of "- 149"] show ?thesis
    by (rule less_le_trans)
qed

lemma float32_finite: "\<bar>round32 x\<bar> < 2 ^ 128 \<Longrightarrow> float32 x = Fin (round32 x)"
  by (auto simp: float32_def Let_def)


lemma float32_zero: "float32 0 = Fin 0"
  by (simp add: float32_def round32_zero)

lemma float32_one: "float32 1 = Fin 1"
  by (simp add: float32_def round32_one)

lemma float32_numeral:
  "numeral w \<le> (16777216::int) \<Longrightarrow> float32 (numeral w) = Fin (numeral w)"
proof -
  assume a: "numeral w \<le> (16777216::int)"
  then have "(numeral w :: real) \<le> 16777216"
    by (metis of_int_le_iff of_int_numeral)
  moreover have "(16777216::real) < 2 ^ 128"
    by simp
  ultimately have "(numeral w :: real) < 2 ^ 128"
    by (rule le_less_trans)
  moreover have "\<bar>numeral w :: real\<bar> = numeral w"
    by simp
  ultimately have "\<bar>numeral w :: real\<bar> < 2 ^ 128"
    by (simp only:)
  then have "\<bar>round32 (numeral w)\<bar> < 2 ^ 128"
    using a by (simp only: round32_numeral)
  from float32_finite [OF this] show ?thesis
    using a by (simp only: round32_numeral)
qed


text \<open>Two numbers that float32 does not hold: one is rounded, the other overflows.\<close>

lemma expo_16777217: "expo 16777217 = 1"
proof -
  have "expo 16777217 = 24 - 23"
    by (rule expo_eq) simp_all
  then show ?thesis by simp
qed

lemma round32_16777217: "round32 16777217 = 16777216"
  by (simp add: round32_def expo_16777217 rne_def Let_def)

lemma float32_16777217: "float32 16777217 = Fin 16777216"
  by (simp add: float32_def Let_def round32_16777217)

lemma float32_overflow:
  assumes "2 ^ 128 \<le> x"
  shows "float32 x = PInf"
proof -
  have "expo (2 ^ 128) = 128 - 23"
    by (rule expo_eq) simp_all
  then have e: "expo (2 ^ 128) = 105" by simp
  have "(2::real) ^ 128 = of_int (2 ^ 23) * 2 powi expo (2 ^ 128)"
    unfolding e by simp
  then have "round32 (2 ^ 128) = 2 ^ 128"
    by (rule round32_exact)
  then have "2 ^ 128 \<le> round32 x"
    using round32_mono [OF assms] by simp
  then show ?thesis
    by (simp add: float32_def Let_def)
qed

lemma float32_1e39: "float32 1000000000000000000000000000000000000000 = PInf"
  by (rule float32_overflow) simp


lemma round32_2p127: "round32 (2 ^ 127) = 2 ^ 127"
proof -
  have "expo (2 ^ 127) = 127 - 23"
    by (rule expo_eq) simp_all
  then have e: "expo (2 ^ 127) = 104" by simp
  have "(2::real) ^ 127 = of_int (2 ^ 23) * 2 powi expo (2 ^ 127)"
    unfolding e by simp
  then show ?thesis
    by (rule round32_exact)
qed

lemma round32_2p127_value:
  "round32 170141183460469231731687303715884105728 = 170141183460469231731687303715884105728"
  using round32_2p127 by simp

lemma float32_2p127:
  "float32 170141183460469231731687303715884105728 = Fin 170141183460469231731687303715884105728"
proof -
  have "float32 170141183460469231731687303715884105728
          = Fin (round32 170141183460469231731687303715884105728)"
    by (rule float32_finite) (simp add: round32_2p127_value)
  then show ?thesis
    by (simp add: round32_2p127_value)
qed

lemma float32_minus_2p127:
  "float32 (- 170141183460469231731687303715884105728)
     = Fin (- 170141183460469231731687303715884105728)"
proof -
  have "float32 (- 170141183460469231731687303715884105728)
          = Fin (round32 (- 170141183460469231731687303715884105728))"
    by (rule float32_finite) (simp add: round32_minus round32_2p127_value)
  then show ?thesis
    by (simp add: round32_minus round32_2p127_value)
qed

lemma float32_2p128: "float32 340282366920938463463374607431768211456 = PInf"
  by (rule float32_overflow) simp

section \<open>Properties of the shuffle\<close>

lemma length_swap: "length (swap xs i j) = length xs"
  by (simp add: swap_def)

lemma mset_swap_in_range:
  "i < length xs \<Longrightarrow> j < length xs \<Longrightarrow> mset (swap xs i j) = mset xs"
  by (simp add: swap_def Let_def mset_swap)

lemma mset_shuffle_loop:
  "counter \<le> length array \<Longrightarrow> mset (shuffle_loop rnd k counter array) = mset array"
proof (induction counter arbitrary: k array)
  case 0
  then show ?case by simp
next
  case (Suc counter)
  have idx: "rnd k mod Suc counter < length array"
    using Suc.prems by (meson less_le_trans mod_less_divisor zero_less_Suc)
  have cnt: "counter < length array"
    using Suc.prems by simp
  have "mset (shuffle_loop rnd (Suc k) counter (swap array counter (rnd k mod Suc counter)))
        = mset (swap array counter (rnd k mod Suc counter))"
    using Suc.prems by (intro Suc.IH) (simp add: length_swap)
  also have "\<dots> = mset array"
    using cnt idx by (rule mset_swap_in_range)
  finally show ?case by (simp add: Let_def)
qed

lemma mset_shuffle: "mset (shuffle rnd array) = mset array"
  by (simp add: shuffle_def mset_shuffle_loop)

lemma set_shuffle: "set (shuffle rnd array) = set array"
  using mset_shuffle by (metis set_mset_mset)

lemma length_shuffle: "length (shuffle rnd array) = length array"
  using mset_shuffle by (metis size_mset)

lemma shuffle_Nil: "shuffle rnd [] = []"
  by (simp add: shuffle_def)


lemma shuffle_pair: "shuffle rnd [x, y] = (if rnd 0 mod 2 = 0 then [y, x] else [x, y])"
proof -
  have two: "length [x, y] = Suc (Suc 0)" by simp
  have "rnd 0 mod 2 = 0 \<or> rnd 0 mod 2 = 1" by presburger
  then show ?thesis
    unfolding shuffle_def two
    by (auto simp: swap_def Let_def numeral_2_eq_2)
qed

section \<open>Properties of the tensor operations\<close>

lemma fold_max_Fin:
  "fold (\<lambda>v m. if v = NaN \<or> jsnum_gt v m then v else m) (map Fin xs) (Fin a) = Fin (fold max xs a)"
  by (induction xs arbitrary: a) (auto simp: max_def)

lemma fold_min_Fin:
  "fold (\<lambda>v m. if v = NaN \<or> jsnum_gt m v then v else m) (map Fin xs) (Fin a) = Fin (fold min xs a)"
  by (induction xs arbitrary: a) (auto simp: min_def)

lemma reduce_max_Fin:
  assumes "xs \<noteq> []"
  shows "reduce_max (map Fin xs) = Fin (Max (set xs))"
proof -
  from assms obtain y ys where xs: "xs = y # ys" by (cases xs) auto
  have "reduce_max (map Fin xs) = Fin (fold max ys (max y y))"
    by (simp add: reduce_max_def xs fold_max_Fin)
  also have "fold max ys (max y y) = Max (set xs)"
    using Max.set_eq_fold [of y ys] by (simp add: xs)
  finally show ?thesis .
qed

lemma reduce_min_Fin:
  assumes "xs \<noteq> []"
  shows "reduce_min (map Fin xs) = Fin (Min (set xs))"
proof -
  from assms obtain y ys where xs: "xs = y # ys" by (cases xs) auto
  have "reduce_min (map Fin xs) = Fin (fold min ys (min y y))"
    by (simp add: reduce_min_def xs fold_min_Fin)
  also have "fold min ys (min y y) = Min (set xs)"
    using Min.set_eq_fold [of y ys] by (simp add: xs)
  finally show ?thesis .
qed

lemma tensor2d_column:
  "length xs = n \<Longrightarrow> tensor2d xs [n, 1] = Inr \<lparr> shape = [n, 1], vals = map float32 xs \<rparr>"
  by (simp add: tensor2d_def)

lemma broadcast_scalar:
  "shape b = [] \<Longrightarrow> vals b = [s] \<Longrightarrow>
   broadcast f a b = Inr \<lparr> shape = shape a, vals = map (\<lambda>x. f x s) (vals a) \<rparr>"
  by (simp add: broadcast_def)

lemma scalar_sel: "shape (scalar v) = []" "vals (scalar v) = [v]"
  by (simp_all add: scalar_def)

section \<open>Properties of convertToTensor\<close>

text \<open>
  What the call returns, on every input: none of its steps throws, the array is left
  shuffled, and each normalized element is computed from the record at its position.
\<close>

lemma convertToTensor_result:
  "convertToTensor rnd data =
    Inr (shuffle rnd data,
         \<lparr> inputs = \<lparr> shape = [length data, 1],
                      vals = map (\<lambda>d. jsnum_div
                                  (jsnum_sub (float32 (horsepower d))
                                     (reduce_min (map (\<lambda>d. float32 (horsepower d)) (shuffle rnd data))))
                                  (jsnum_sub
                                     (reduce_max (map (\<lambda>d. float32 (horsepower d)) (shuffle rnd data)))
                                     (reduce_min (map (\<lambda>d. float32 (horsepower d)) (shuffle rnd data)))))
                               (shuffle rnd data) \<rparr>,
           labels = \<lparr> shape = [length data, 1],
                      vals = map (\<lambda>d. jsnum_div
                                  (jsnum_sub (float32 (mpg d))
                                     (reduce_min (map (\<lambda>d. float32 (mpg d)) (shuffle rnd data))))
                                  (jsnum_sub
                                     (reduce_max (map (\<lambda>d. float32 (mpg d)) (shuffle rnd data)))
                                     (reduce_min (map (\<lambda>d. float32 (mpg d)) (shuffle rnd data)))))
                               (shuffle rnd data) \<rparr>,
           inputMax = scalar (reduce_max (map (\<lambda>d. float32 (horsepower d)) (shuffle rnd data))),
           inputMin = scalar (reduce_min (map (\<lambda>d. float32 (horsepower d)) (shuffle rnd data))),
           labelMax = scalar (reduce_max (map (\<lambda>d. float32 (mpg d)) (shuffle rnd data))),
           labelMin = scalar (reduce_min (map (\<lambda>d. float32 (mpg d)) (shuffle rnd data))) \<rparr>)"
  unfolding convertToTensor_def Let_def
  by (simp add: tensor2d_column length_shuffle and_then_def tensor_max_def tensor_min_def
        tensor_sub_def tensor_div_def broadcast_scalar scalar_sel comp_def
        del: jsnum_div.simps jsnum_sub.simps One_nat_def)

lemma Min_less_Max_if_distinct:
  fixes S :: "real set"
  assumes "finite S" "a \<in> S" "b \<in> S" "a \<noteq> b"
  shows "Min S < Max S"
proof -
  have "Min S \<le> min a b" using assms by (simp add: Min_le)
  moreover have "max a b \<le> Max S" using assms by (simp add: Max_ge)
  moreover have "min a b < max a b" using assms by (simp add: min_def max_def)
  ultimately show ?thesis by linarith
qed

lemma field_range_positive:
  fixes f :: "'a \<Rightarrow> real"
  assumes "\<exists>a\<in>set data. \<exists>b\<in>set data. f a \<noteq> f b"
  shows "Min (f ` set data) < Max (f ` set data)"
proof -
  from assms obtain a b where "a \<in> set data" "b \<in> set data" "f a \<noteq> f b"
    by blast
  then show ?thesis
    by (intro Min_less_Max_if_distinct [of _ "f a" "f b"]) simp_all
qed

text \<open>
  One feature \<open>f\<close> of a non-empty array whose float32 values are finite, not all equal and
  have a range that does not overflow: the bounds are the least and the greatest float32
  value, and each normalized element is the float32 quotient of two float32 differences,
  between 0 and 1.
\<close>

lemma normalize_feature:
  fixes f :: "real car \<Rightarrow> real"
  assumes ne: "data \<noteq> []"
    and fin: "\<forall>d\<in>set data. \<bar>round32 (f d)\<bar> < 2 ^ 128"
    and dist: "\<exists>a\<in>set data. \<exists>b\<in>set data. round32 (f a) \<noteq> round32 (f b)"
    and rng: "round32 (Max ((\<lambda>d. round32 (f d)) ` set data) - Min ((\<lambda>d. round32 (f d)) ` set data))
                < 2 ^ 128"
  shows "reduce_max (map (\<lambda>d. float32 (f d)) (shuffle rnd data))
           = Fin (Max ((\<lambda>d. round32 (f d)) ` set data))"
    and "reduce_min (map (\<lambda>d. float32 (f d)) (shuffle rnd data))
           = Fin (Min ((\<lambda>d. round32 (f d)) ` set data))"
    and "\<forall>d\<in>set data.
           jsnum_div
             (jsnum_sub (float32 (f d)) (Fin (Min ((\<lambda>d. round32 (f d)) ` set data))))
             (jsnum_sub (Fin (Max ((\<lambda>d. round32 (f d)) ` set data)))
                        (Fin (Min ((\<lambda>d. round32 (f d)) ` set data))))
           = Fin (round32 (round32 (round32 (f d) - Min ((\<lambda>d. round32 (f d)) ` set data))
                           / round32 (Max ((\<lambda>d. round32 (f d)) ` set data)
                                      - Min ((\<lambda>d. round32 (f d)) ` set data))))
         \<and> 0 \<le> round32 (round32 (round32 (f d) - Min ((\<lambda>d. round32 (f d)) ` set data))
                           / round32 (Max ((\<lambda>d. round32 (f d)) ` set data)
                                      - Min ((\<lambda>d. round32 (f d)) ` set data)))
         \<and> round32 (round32 (round32 (f d) - Min ((\<lambda>d. round32 (f d)) ` set data))
                           / round32 (Max ((\<lambda>d. round32 (f d)) ` set data)
                                      - Min ((\<lambda>d. round32 (f d)) ` set data))) \<le> 1"
proof -
  let ?g = "\<lambda>d. round32 (f d)"
  let ?mn = "Min (?g ` set data)" and ?mx = "Max (?g ` set data)"
  let ?sh = "shuffle rnd data"
  have conv: "float32 (f d) = Fin (?g d)" if "d \<in> set data" for d
    using fin that by (intro float32_finite) simp
  have "map (\<lambda>d. float32 (f d)) ?sh = map (\<lambda>d. Fin (?g d)) ?sh"
    by (rule map_cong [OF refl]) (simp add: conv set_shuffle)
  then have mp: "map (\<lambda>d. float32 (f d)) ?sh = map Fin (map ?g ?sh)"
    by (simp add: comp_def)
  have sne: "map ?g ?sh \<noteq> []"
    using ne length_shuffle [of rnd data] by auto
  have st: "set (map ?g ?sh) = ?g ` set data"
    by (simp add: set_shuffle)
  show mx: "reduce_max (map (\<lambda>d. float32 (f d)) ?sh) = Fin ?mx"
    unfolding mp using reduce_max_Fin [OF sne] st by simp
  show mn: "reduce_min (map (\<lambda>d. float32 (f d)) ?sh) = Fin ?mn"
    unfolding mp using reduce_min_Fin [OF sne] st by simp
  have lt: "?mn < ?mx"
    using dist by (rule field_range_positive)
  have "?mn \<in> ?g ` set data" "?mx \<in> ?g ` set data"
    using ne by (simp_all add: Min_in Max_in del: image_iff)
  then obtain a b where a: "?mn = round32 (f a)" and b: "?mx = round32 (f b)"
    by blast
  let ?r = "round32 (?mx - ?mn)"
  have rpos: "0 < ?r"
    using round32_difference_pos [of "f a" "f b"] lt unfolding a b by simp
  have range: "jsnum_sub (Fin ?mx) (Fin ?mn) = Fin ?r"
    using rpos rng by (simp add: float32_finite)
  have one: "(2::real) ^ 128 > 1"
    by simp
  have each: "jsnum_div (jsnum_sub (float32 (f d)) (Fin ?mn)) (Fin ?r)
                = Fin (round32 (round32 (?g d - ?mn) / ?r))
              \<and> 0 \<le> round32 (round32 (?g d - ?mn) / ?r)
              \<and> round32 (round32 (?g d - ?mn) / ?r) \<le> 1"
    if d: "d \<in> set data" for d
  proof -
    let ?s = "round32 (?g d - ?mn)"
    have lo: "?mn \<le> ?g d" and hi: "?g d \<le> ?mx"
      using d by (simp_all add: Min_le Max_ge del: image_iff)
    have s0: "0 \<le> ?s"
      using lo by (intro round32_nonneg) simp
    have sr: "?s \<le> ?r"
      using hi by (intro round32_mono) simp
    have "\<bar>?s\<bar> < 2 ^ 128"
      using s0 sr rng by simp
    then have shifted: "jsnum_sub (float32 (f d)) (Fin ?mn) = Fin ?s"
      by (simp add: conv [OF d] float32_finite)
    have q0: "0 \<le> ?s / ?r" and q1: "?s / ?r \<le> 1"
      using s0 sr rpos by (simp_all add: divide_le_eq)
    have n0: "0 \<le> round32 (?s / ?r)"
      using q0 by (rule round32_nonneg)
    have n1: "round32 (?s / ?r) \<le> 1"
      using round32_mono [OF q1] by (simp add: round32_one)
    have "\<bar>round32 (?s / ?r)\<bar> < 2 ^ 128"
      using n0 n1 one by simp
    then have "jsnum_div (Fin ?s) (Fin ?r) = Fin (round32 (?s / ?r))"
      using rpos by (simp add: float32_finite)
    with shifted n0 n1 show ?thesis
      by (simp only:)
  qed
  show "\<forall>d\<in>set data.
           jsnum_div (jsnum_sub (float32 (f d)) (Fin ?mn)) (jsnum_sub (Fin ?mx) (Fin ?mn))
           = Fin (round32 (round32 (?g d - ?mn) / round32 (?mx - ?mn)))
         \<and> 0 \<le> round32 (round32 (?g d - ?mn) / round32 (?mx - ?mn))
         \<and> round32 (round32 (?g d - ?mn) / round32 (?mx - ?mn)) \<le> 1"
    unfolding range using each by blast
qed






text \<open>
  Claim C1, as amended. The tensors are float32 tensors. For every non-empty sequence of
  CleanRecords whose horsepower values, rounded to float32, are finite and not all equal
  and have a maximum and a minimum whose float32 difference is finite, and likewise for the
  mpg values, \<open>convertToTensor\<close> returns for each record of the shuffled sequence the value
  \<open>(value - min) / (max - min)\<close> of each field computed in float32 (the value, the difference
  and the quotient each rounded to the nearest float32), with the minimum and the maximum
  of that field over the whole sequence, and every such normalized input and label is a
  number between 0 and 1.
\<close>

theorem convertToTensor_normalizes:
  assumes "data \<noteq> []"
    and "\<forall>d\<in>set data. \<bar>round32 (horsepower d)\<bar> < 2 ^ 128"
    and "\<exists>a\<in>set data. \<exists>b\<in>set data. round32 (horsepower a) \<noteq> round32 (horsepower b)"
    and "round32 (Max ((\<lambda>d. round32 (horsepower d)) ` set data)
                  - Min ((\<lambda>d. round32 (horsepower d)) ` set data)) < 2 ^ 128"
    and "\<forall>d\<in>set data. \<bar>round32 (mpg d)\<bar> < 2 ^ 128"
    and "\<exists>a\<in>set data. \<exists>b\<in>set data. round32 (mpg a) \<noteq> round32 (mpg b)"
    and "round32 (Max ((\<lambda>d. round32 (mpg d)) ` set data)
                  - Min ((\<lambda>d. round32 (mpg d)) ` set data)) < 2 ^ 128"
  shows "\<exists>data' res. convertToTensor rnd data = Inr (data', res)
     \<and> mset data' = mset data
     \<and> inputMin res = scalar (Fin (Min ((\<lambda>d. round32 (horsepower d)) ` set data)))
     \<and> inputMax res = scalar (Fin (Max ((\<lambda>d. round32 (horsepower d)) ` set data)))
     \<and> labelMin res = scalar (Fin (Min ((\<lambda>d. round32 (mpg d)) ` set data)))
     \<and> labelMax res = scalar (Fin (Max ((\<lambda>d. round32 (mpg d)) ` set data)))
     \<and> vals (inputs res) =
         map (\<lambda>d. Fin (round32
                (round32 (round32 (horsepower d) - Min ((\<lambda>d. round32 (horsepower d)) ` set data))
                 / round32 (Max ((\<lambda>d. round32 (horsepower d)) ` set data)
                            - Min ((\<lambda>d. round32 (horsepower d)) ` set data))))) data'
     \<and> vals (labels res) =
         map (\<lambda>d. Fin (round32
                (round32 (round32 (mpg d) - Min ((\<lambda>d. round32 (mpg d)) ` set data))
                 / round32 (Max ((\<lambda>d. round32 (mpg d)) ` set data)
                            - Min ((\<lambda>d. round32 (mpg d)) ` set data))))) data'
     \<and> (\<forall>v \<in> set (vals (inputs res)) \<union> set (vals (labels res)).
           \<exists>x. v = Fin x \<and> 0 \<le> x \<and> x \<le> 1)"
proof -
  let ?sh = "shuffle rnd data"
  note h = normalize_feature [where f = horsepower, OF assms(1,2,3,4)]
  note m = normalize_feature [where f = mpg, OF assms(1,5,6,7)]
  let ?hn = "\<lambda>d. round32
                (round32 (round32 (horsepower d) - Min ((\<lambda>d. round32 (horsepower d)) ` set data))
                 / round32 (Max ((\<lambda>d. round32 (horsepower d)) ` set data)
                            - Min ((\<lambda>d. round32 (horsepower d)) ` set data)))"
  let ?mn = "\<lambda>d. round32
                (round32 (round32 (mpg d) - Min ((\<lambda>d. round32 (mpg d)) ` set data))
                 / round32 (Max ((\<lambda>d. round32 (mpg d)) ` set data)
                            - Min ((\<lambda>d. round32 (mpg d)) ` set data)))"
  obtain res where res: "convertToTensor rnd data = Inr (?sh, res)"
    and imin: "inputMin res = scalar (Fin (Min ((\<lambda>d. round32 (horsepower d)) ` set data)))"
    and imax: "inputMax res = scalar (Fin (Max ((\<lambda>d. round32 (horsepower d)) ` set data)))"
    and lmin: "labelMin res = scalar (Fin (Min ((\<lambda>d. round32 (mpg d)) ` set data)))"
    and lmax: "labelMax res = scalar (Fin (Max ((\<lambda>d. round32 (mpg d)) ` set data)))"
    and ins: "vals (inputs res) =
                map (\<lambda>d. jsnum_div
                       (jsnum_sub (float32 (horsepower d))
                          (Fin (Min ((\<lambda>d. round32 (horsepower d)) ` set data))))
                       (jsnum_sub (Fin (Max ((\<lambda>d. round32 (horsepower d)) ` set data)))
                          (Fin (Min ((\<lambda>d. round32 (horsepower d)) ` set data))))) ?sh"
    and lbs: "vals (labels res) =
                map (\<lambda>d. jsnum_div
                       (jsnum_sub (float32 (mpg d))
                          (Fin (Min ((\<lambda>d. round32 (mpg d)) ` set data))))
                       (jsnum_sub (Fin (Max ((\<lambda>d. round32 (mpg d)) ` set data)))
                          (Fin (Min ((\<lambda>d. round32 (mpg d)) ` set data))))) ?sh"
    unfolding convertToTensor_result h(1,2) m(1,2)
    by (simp del: jsnum_div.simps jsnum_sub.simps)
  have ins': "vals (inputs res) = map (\<lambda>d. Fin (?hn d)) ?sh"
    unfolding ins by (rule map_cong [OF refl]) (use h(3) in \<open>simp add: set_shuffle\<close>)
  have lbs': "vals (labels res) = map (\<lambda>d. Fin (?mn d)) ?sh"
    unfolding lbs by (rule map_cong [OF refl]) (use m(3) in \<open>simp add: set_shuffle\<close>)
  have unit: "\<forall>v \<in> set (vals (inputs res)) \<union> set (vals (labels res)).
                \<exists>x. v = Fin x \<and> 0 \<le> x \<and> x \<le> 1"
    unfolding ins' lbs' using h(3) m(3) by (auto simp: set_shuffle)
  from res mset_shuffle [of rnd data] imin imax lmin lmax ins' lbs' unit show ?thesis
    by blast
qed

theorem convertToTensor_normalizes_witness:
  "list_all (\<lambda>d. \<bar>round32 (horsepower d)\<bar> < 2 ^ 128 \<and> \<bar>round32 (mpg d)\<bar> < 2 ^ 128)
     [\<lparr> mpg = 15, horsepower = 165 \<rparr>, \<lparr> mpg = 18, horsepower = 150 \<rparr>,
      \<lparr> mpg = 16, horsepower = 150 \<rparr>]
   \<and> round32 165 \<noteq> round32 150
   \<and> round32 15 \<noteq> round32 18
   \<and> (\<exists>data' res.
         convertToTensor id [\<lparr> mpg = 15, horsepower = 165 \<rparr>, \<lparr> mpg = 18, horsepower = 150 \<rparr>,
                             \<lparr> mpg = 16, horsepower = 150 \<rparr>] = Inr (data', res)
         \<and> inputMin res = scalar (Fin 150) \<and> inputMax res = scalar (Fin 165)
         \<and> labelMin res = scalar (Fin 15) \<and> labelMax res = scalar (Fin 18)
         \<and> (\<forall>v \<in> set (vals (inputs res)) \<union> set (vals (labels res)).
               \<exists>x. v = Fin x \<and> 0 \<le> x \<and> x \<le> 1))"
proof -
  let ?data = "[\<lparr> mpg = 15, horsepower = 165 \<rparr>, \<lparr> mpg = 18, horsepower = 150 \<rparr>,
                \<lparr> mpg = 16, horsepower = (150::real) \<rparr>]"
  have big: "(165::real) < 2 ^ 128" "(150::real) < 2 ^ 128"
            "(15::real) < 2 ^ 128" "(18::real) < 2 ^ 128" "(16::real) < 2 ^ 128"
            "(3::real) < 2 ^ 128"
    by simp_all
  have h1: "?data \<noteq> []" by simp
  have h2: "\<forall>d\<in>set ?data. \<bar>round32 (horsepower d)\<bar> < 2 ^ 128"
    using big by (simp add: round32_numeral)
  have h3: "\<exists>a\<in>set ?data. \<exists>b\<in>set ?data. round32 (horsepower a) \<noteq> round32 (horsepower b)"
    by (rule bexI [where x = "\<lparr> mpg = 15, horsepower = 165 \<rparr>"],
        rule bexI [where x = "\<lparr> mpg = 18, horsepower = 150 \<rparr>"])
       (simp_all add: round32_numeral)
  have hmin: "Min ((\<lambda>d. round32 (horsepower d)) ` set ?data) = 150"
    and hmax: "Max ((\<lambda>d. round32 (horsepower d)) ` set ?data) = 165"
    by (simp_all add: round32_numeral)
  have h4: "round32 (Max ((\<lambda>d. round32 (horsepower d)) ` set ?data)
                     - Min ((\<lambda>d. round32 (horsepower d)) ` set ?data)) < 2 ^ 128"
    unfolding hmin hmax using big by (simp add: round32_numeral)
  have m2: "\<forall>d\<in>set ?data. \<bar>round32 (mpg d)\<bar> < 2 ^ 128"
    using big by (simp add: round32_numeral)
  have m3: "\<exists>a\<in>set ?data. \<exists>b\<in>set ?data. round32 (mpg a) \<noteq> round32 (mpg b)"
    by (rule bexI [where x = "\<lparr> mpg = 15, horsepower = 165 \<rparr>"],
        rule bexI [where x = "\<lparr> mpg = 18, horsepower = 150 \<rparr>"])
       (simp_all add: round32_numeral)
  have mmin: "Min ((\<lambda>d. round32 (mpg d)) ` set ?data) = 15"
    and mmax: "Max ((\<lambda>d. round32 (mpg d)) ` set ?data) = 18"
    by (simp_all add: round32_numeral)
  have m4: "round32 (Max ((\<lambda>d. round32 (mpg d)) ` set ?data)
                     - Min ((\<lambda>d. round32 (mpg d)) ` set ?data)) < 2 ^ 128"
    unfolding mmin mmax using big by (simp add: round32_numeral)
  from convertToTensor_normalizes [OF h1 h2 h3 h4 m2 m3 m4, of id]
  obtain data' res where
    "convertToTensor id ?data = Inr (data', res)"
    "inputMin res = scalar (Fin 150)" "inputMax res = scalar (Fin 165)"
    "labelMin res = scalar (Fin 15)" "labelMax res = scalar (Fin 18)"
    "\<forall>v \<in> set (vals (inputs res)) \<union> set (vals (labels res)). \<exists>x. v = Fin x \<and> 0 \<le> x \<and> x \<le> 1"
    unfolding hmin hmax mmin mmax by blast
  then have concl: "\<exists>data' res. convertToTensor id ?data = Inr (data', res)
         \<and> inputMin res = scalar (Fin 150) \<and> inputMax res = scalar (Fin 165)
         \<and> labelMin res = scalar (Fin 15) \<and> labelMax res = scalar (Fin 18)
         \<and> (\<forall>v \<in> set (vals (inputs res)) \<union> set (vals (labels res)).
               \<exists>x. v = Fin x \<and> 0 \<le> x \<and> x \<le> 1)"
    by blast
  have a: "list_all (\<lambda>d. \<bar>round32 (horsepower d)\<bar> < 2 ^ 128 \<and> \<bar>round32 (mpg d)\<bar> < 2 ^ 128) ?data"
    using h2 m2 by (simp add: list_all_iff)
  have b: "round32 165 \<noteq> round32 150" "round32 15 \<noteq> round32 18"
    by (simp_all add: round32_numeral)
  from a b concl show ?thesis
    by (intro conjI)
qed

text \<open>
  The claim as written fails, because the tensors hold float32 numbers. The horsepower
  values 16777217 and 16777216 differ, but both are 16777216 in float32: the maximum equals
  the minimum and both normalized inputs are NaN. The horsepower values \<open>10^39\<close> and 1
  differ, but \<open>10^39\<close> is Infinity in float32: the maximum is Infinity and the normalized
  input of that record is NaN. The horsepower values \<open>2^127\<close> and \<open>-2^127\<close> differ and are
  float32 numbers, but their difference \<open>2^128\<close> is Infinity in float32: the normalized input
  of the record with the maximum is Infinity divided by Infinity, which is NaN.
\<close>

theorem convertToTensor_normalizes_counterexample:
  "(16777217::real) \<noteq> 16777216
   \<and> convertToTensor id [\<lparr> mpg = 18, horsepower = 16777217 \<rparr>, \<lparr> mpg = 24, horsepower = 16777216 \<rparr>]
       = Inr ([\<lparr> mpg = 24, horsepower = 16777216 \<rparr>, \<lparr> mpg = 18, horsepower = 16777217 \<rparr>],
              \<lparr> inputs = \<lparr> shape = [2, 1], vals = [NaN, NaN] \<rparr>,
                labels = \<lparr> shape = [2, 1], vals = [Fin 1, Fin 0] \<rparr>,
                inputMax = scalar (Fin 16777216),
                inputMin = scalar (Fin 16777216),
                labelMax = scalar (Fin 24),
                labelMin = scalar (Fin 18) \<rparr>)
   \<and> (10 ^ 39 :: real) \<noteq> 1
   \<and> convertToTensor id [\<lparr> mpg = 18, horsepower = 10 ^ 39 \<rparr>, \<lparr> mpg = 24, horsepower = 1 \<rparr>]
       = Inr ([\<lparr> mpg = 24, horsepower = 1 \<rparr>, \<lparr> mpg = 18, horsepower = 10 ^ 39 \<rparr>],
              \<lparr> inputs = \<lparr> shape = [2, 1], vals = [Fin 0, NaN] \<rparr>,
                labels = \<lparr> shape = [2, 1], vals = [Fin 1, Fin 0] \<rparr>,
                inputMax = scalar PInf,
                inputMin = scalar (Fin 1),
                labelMax = scalar (Fin 24),
                labelMin = scalar (Fin 18) \<rparr>)
   \<and> (2 ^ 127 :: real) \<noteq> - (2 ^ 127)
   \<and> convertToTensor id [\<lparr> mpg = 18, horsepower = 2 ^ 127 \<rparr>, \<lparr> mpg = 24, horsepower = - (2 ^ 127) \<rparr>]
       = Inr ([\<lparr> mpg = 24, horsepower = - (2 ^ 127) \<rparr>, \<lparr> mpg = 18, horsepower = 2 ^ 127 \<rparr>],
              \<lparr> inputs = \<lparr> shape = [2, 1], vals = [Fin 0, NaN] \<rparr>,
                labels = \<lparr> shape = [2, 1], vals = [Fin 1, Fin 0] \<rparr>,
                inputMax = scalar (Fin (2 ^ 127)),
                inputMin = scalar (Fin (- (2 ^ 127))),
                labelMax = scalar (Fin 24),
                labelMin = scalar (Fin 18) \<rparr>)"
proof -
  have first: "convertToTensor id [\<lparr> mpg = 18, horsepower = 16777217 \<rparr>, \<lparr> mpg = 24, horsepower = 16777216 \<rparr>]
       = Inr ([\<lparr> mpg = 24, horsepower = 16777216 \<rparr>, \<lparr> mpg = 18, horsepower = 16777217 \<rparr>],
              \<lparr> inputs = \<lparr> shape = [2, 1], vals = [NaN, NaN] \<rparr>,
                labels = \<lparr> shape = [2, 1], vals = [Fin 1, Fin 0] \<rparr>,
                inputMax = scalar (Fin 16777216),
                inputMin = scalar (Fin 16777216),
                labelMax = scalar (Fin 24),
                labelMin = scalar (Fin 18) \<rparr>)"
    unfolding convertToTensor_result shuffle_pair
    by (simp add: reduce_max_def reduce_min_def float32_numeral float32_16777217
          float32_zero float32_one)
  have second: "convertToTensor id [\<lparr> mpg = 18, horsepower = 10 ^ 39 \<rparr>, \<lparr> mpg = 24, horsepower = 1 \<rparr>]
       = Inr ([\<lparr> mpg = 24, horsepower = 1 \<rparr>, \<lparr> mpg = 18, horsepower = 10 ^ 39 \<rparr>],
              \<lparr> inputs = \<lparr> shape = [2, 1], vals = [Fin 0, NaN] \<rparr>,
                labels = \<lparr> shape = [2, 1], vals = [Fin 1, Fin 0] \<rparr>,
                inputMax = scalar PInf,
                inputMin = scalar (Fin 1),
                labelMax = scalar (Fin 24),
                labelMin = scalar (Fin 18) \<rparr>)"
    unfolding convertToTensor_result shuffle_pair
    by (simp add: reduce_max_def reduce_min_def float32_numeral float32_1e39
          float32_zero float32_one)
  have third: "convertToTensor id [\<lparr> mpg = 18, horsepower = 2 ^ 127 \<rparr>, \<lparr> mpg = 24, horsepower = - (2 ^ 127) \<rparr>]
       = Inr ([\<lparr> mpg = 24, horsepower = - (2 ^ 127) \<rparr>, \<lparr> mpg = 18, horsepower = 2 ^ 127 \<rparr>],
              \<lparr> inputs = \<lparr> shape = [2, 1], vals = [Fin 0, NaN] \<rparr>,
                labels = \<lparr> shape = [2, 1], vals = [Fin 1, Fin 0] \<rparr>,
                inputMax = scalar (Fin (2 ^ 127)),
                inputMin = scalar (Fin (- (2 ^ 127))),
                labelMax = scalar (Fin 24),
                labelMin = scalar (Fin 18) \<rparr>)"
    unfolding convertToTensor_result shuffle_pair
    by (simp add: reduce_max_def reduce_min_def float32_numeral float32_2p127
          float32_minus_2p127 float32_2p128 float32_zero float32_one)
  have "(16777217::real) \<noteq> 16777216" "(10 ^ 39 :: real) \<noteq> 1" "(2 ^ 127 :: real) \<noteq> - (2 ^ 127)"
    by simp_all
  with first second third show ?thesis
    by (intro conjI)
qed

text \<open>
  Claim C2. For every sequence of CleanRecords, the shuffle of \<open>convertToTensor\<close> only
  reorders the records: the array after the call holds the same records with the same
  multiplicities, hence the same multiset of (horsepower, mpg) pairs, so no field of a
  record has changed and the two fields of a record have stayed together. The two returned
  tensors follow that order: the input and the label at a position come from the
  horsepower and the mpg of the record at that position.
\<close>

theorem shuffle_preserves_pairing:
  "\<exists>data' res. convertToTensor rnd data = Inr (data', res)
     \<and> mset data' = mset data
     \<and> mset (map (\<lambda>d. (horsepower d, mpg d)) data') = mset (map (\<lambda>d. (horsepower d, mpg d)) data)
     \<and> (\<exists>f g. vals (inputs res) = map (\<lambda>d. f (horsepower d)) data'
             \<and> vals (labels res) = map (\<lambda>d. g (mpg d)) data')"
proof -
  let ?d = "shuffle rnd data"
  obtain res where res: "convertToTensor rnd data = Inr (?d, res)"
    and ins: "vals (inputs res) =
               map (\<lambda>d. jsnum_div
                          (jsnum_sub (float32 (horsepower d)) (reduce_min (map (\<lambda>d. float32 (horsepower d)) ?d)))
                          (jsnum_sub (reduce_max (map (\<lambda>d. float32 (horsepower d)) ?d))
                                     (reduce_min (map (\<lambda>d. float32 (horsepower d)) ?d)))) ?d"
    and lbs: "vals (labels res) =
               map (\<lambda>d. jsnum_div
                          (jsnum_sub (float32 (mpg d)) (reduce_min (map (\<lambda>d. float32 (mpg d)) ?d)))
                          (jsnum_sub (reduce_max (map (\<lambda>d. float32 (mpg d)) ?d))
                                     (reduce_min (map (\<lambda>d. float32 (mpg d)) ?d)))) ?d"
    unfolding convertToTensor_result by simp
  have pairs: "mset (map (\<lambda>d. (horsepower d, mpg d)) ?d) = mset (map (\<lambda>d. (horsepower d, mpg d)) data)"
    using mset_shuffle [of rnd data] by (metis mset_map)
  have "\<exists>f g. vals (inputs res) = map (\<lambda>d. f (horsepower d)) ?d
             \<and> vals (labels res) = map (\<lambda>d. g (mpg d)) ?d"
    by (rule exI [of _ "\<lambda>h. jsnum_div
                          (jsnum_sub (float32 h) (reduce_min (map (\<lambda>d. float32 (horsepower d)) ?d)))
                          (jsnum_sub (reduce_max (map (\<lambda>d. float32 (horsepower d)) ?d))
                                     (reduce_min (map (\<lambda>d. float32 (horsepower d)) ?d)))"],
        rule exI [of _ "\<lambda>m. jsnum_div
                          (jsnum_sub (float32 m) (reduce_min (map (\<lambda>d. float32 (mpg d)) ?d)))
                          (jsnum_sub (reduce_max (map (\<lambda>d. float32 (mpg d)) ?d))
                                     (reduce_min (map (\<lambda>d. float32 (mpg d)) ?d)))"])
       (simp only: ins lbs)
  with res pairs mset_shuffle [of rnd data] show ?thesis
    by blast
qed

text \<open>
  Claim C3, as amended. The script has no check for an empty sequence and no
  EmptyDatasetError: on the empty sequence \<open>convertToTensor\<close> throws nothing. It returns an
  object whose input and label tensors have shape \<open>[0, 1]\<close> and no element, and the array
  stays empty.
\<close>

theorem convertToTensor_empty:
  "\<exists>res. convertToTensor rnd [] = Inr ([], res)
     \<and> inputs res = \<lparr> shape = [0, 1], vals = [] \<rparr>
     \<and> labels res = \<lparr> shape = [0, 1], vals = [] \<rparr>"
  unfolding convertToTensor_result by (simp add: shuffle_Nil)

text \<open>The claim as written fails: on the empty sequence the call does not end in an error.\<close>

theorem convertToTensor_empty_counterexample:
  "\<not> (\<exists>e. convertToTensor id [] = Inl e)"
  unfolding convertToTensor_result by simp

text \<open>
  Claim C6. On \<open>[{mpg:18, horsepower:130}, {mpg:24, horsepower:80}]\<close> the bounds are 80 and
  130 for horsepower and 18 and 24 for mpg, whatever the shuffle picks. The normalized
  horsepower values are 1 and 0, in the order the shuffle leaves the two records in, and the
  normalized mpg of each record stays at the position of its horsepower.
\<close>

theorem convertToTensor_concrete:
  "\<exists>data' res.
      convertToTensor rnd [\<lparr> mpg = 18, horsepower = 130 \<rparr>, \<lparr> mpg = 24, horsepower = 80 \<rparr>]
        = Inr (data', res)
    \<and> inputMin res = scalar (Fin 80) \<and> inputMax res = scalar (Fin 130)
    \<and> labelMin res = scalar (Fin 18) \<and> labelMax res = scalar (Fin 24)
    \<and> set (vals (inputs res)) = {Fin 1, Fin 0}
    \<and> (data' = [\<lparr> mpg = 18, horsepower = 130 \<rparr>, \<lparr> mpg = 24, horsepower = 80 \<rparr>]
         \<and> vals (inputs res) = [Fin 1, Fin 0] \<and> vals (labels res) = [Fin 0, Fin 1]
       \<or> data' = [\<lparr> mpg = 24, horsepower = 80 \<rparr>, \<lparr> mpg = 18, horsepower = 130 \<rparr>]
         \<and> vals (inputs res) = [Fin 0, Fin 1] \<and> vals (labels res) = [Fin 1, Fin 0])"
proof -
  show ?thesis
    unfolding convertToTensor_result shuffle_pair
    by (cases "rnd 0 mod 2 = 0")
       (simp_all add: reduce_max_def reduce_min_def float32_numeral float32_zero float32_one
          insert_commute)
qed




section \<open>Properties of createModel\<close>

lemma createModel_value:
  "createModel =
     Inr \<lparr> layers =
             [\<lparr> layerInputShape = Some [1], layerUnits = 1, layerUseBias = True,
                layerActivation = ''linear'' \<rparr>,
              \<lparr> layerInputShape = None, layerUnits = 1, layerUseBias = True,
                layerActivation = ''linear'' \<rparr>] \<rparr>"
  by (simp add: createModel_def sequential_def add_def dense_def and_then_def)

text \<open>
  Claim C8. \<open>createModel\<close> returns a sequential model of exactly two dense layers, in this
  order: the first with input shape \<open>[1]\<close>, both with one unit and a bias, and both with the
  linear activation, that is, with no nonlinearity after the first layer or the second.
\<close>

theorem createModel_architecture:
  "createModel =
     Inr \<lparr> layers =
             [\<lparr> layerInputShape = Some [1], layerUnits = 1, layerUseBias = True,
                layerActivation = ''linear'' \<rparr>,
              \<lparr> layerInputShape = None, layerUnits = 1, layerUseBias = True,
                layerActivation = ''linear'' \<rparr>] \<rparr>"
  by (rule createModel_value)

section \<open>Properties of trainModel\<close>






























end
